theory Spec2Isabelle
  imports Main
begin

section \<open>JavaScript values\<close>

text \<open>
  The values that flow through \<^verbatim>\<open>Expression.js\<close>: properties, context entries, resolved
  field values, and the assembled request. Numbers are restricted to integers. An array
  is the list of its slots, \<open>None\<close> being a hole (a sparse array, as
  \<^verbatim>\<open>removeEmptyStrings\<close> can produce); an object is the sequence of its own entries, in
  the order \<^verbatim>\<open>Object.entries\<close> lists them (a new key goes last, which is JavaScript's
  order for keys that are not array indices). Strings are byte strings. A property read
  finds the object's own entries only.
\<close>

datatype jsval =
    JUndefined
  | JNull
  | JBool bool
  | JNum int
  | JStr string
  | JArr "jsval option list"
  | JObj "(string \<times> jsval) list"

type_synonym obj = "(string \<times> jsval) list"

datatype error =
    Error string
  | TypeError string
  | ReferenceError string

text \<open>\<^verbatim>\<open>typeof v == 'object'\<close>: true of \<^verbatim>\<open>null\<close>, of arrays and of objects.\<close>

fun typeof_object :: "jsval \<Rightarrow> bool" where
  "typeof_object JNull = True"
| "typeof_object (JArr xs) = True"
| "typeof_object (JObj es) = True"
| "typeof_object v = False"

text \<open>\<^verbatim>\<open>v == null\<close>: true of \<^verbatim>\<open>null\<close> and \<^verbatim>\<open>undefined\<close> only.\<close>

fun nullish :: "jsval \<Rightarrow> bool" where
  "nullish JUndefined = True"
| "nullish JNull = True"
| "nullish v = False"

text \<open>Truthiness, as \<^verbatim>\<open>if (v)\<close> and \<^verbatim>\<open>v || d\<close> test it.\<close>

fun truthy :: "jsval \<Rightarrow> bool" where
  "truthy JUndefined = False"
| "truthy JNull = False"
| "truthy (JBool b) = b"
| "truthy (JNum n) = (n \<noteq> 0)"
| "truthy (JStr s) = (s \<noteq> [])"
| "truthy (JArr xs) = True"
| "truthy (JObj es) = True"

text \<open>\<^verbatim>\<open>o[k]\<close> on an object: the entry's value, \<^verbatim>\<open>undefined\<close> when there is none.\<close>

definition obj_get :: "obj \<Rightarrow> string \<Rightarrow> jsval" where
  "obj_get ob k = (case map_of ob k of None \<Rightarrow> JUndefined | Some v \<Rightarrow> v)"

text \<open>\<^verbatim>\<open>o[k] = v\<close>: an existing entry keeps its place, a new one goes last.\<close>

definition obj_set :: "(string \<times> 'v) list \<Rightarrow> string \<Rightarrow> 'v \<Rightarrow> (string \<times> 'v) list" where
  "obj_set ob k v =
     (if k \<in> fst ` set ob then map (\<lambda>(k', v'). if k' = k then (k', v) else (k', v')) ob
      else ob @ [(k, v)])"

text \<open>\<^verbatim>\<open>a[i] = v\<close> on an array: slots between the old end and \<open>i\<close> become holes.\<close>

definition arr_set :: "jsval option list \<Rightarrow> nat \<Rightarrow> jsval \<Rightarrow> jsval option list" where
  "arr_set xs i v =
     (if i < length xs then xs[i := Some v]
      else xs @ replicate (i - length xs) None @ [Some v])"

text \<open>\<^verbatim>\<open>a[i]\<close> read from an array: a hole or an index past the end reads \<^verbatim>\<open>undefined\<close>.\<close>

definition arr_get :: "jsval option list \<Rightarrow> nat \<Rightarrow> jsval" where
  "arr_get xs i =
     (if i < length xs then (case xs ! i of None \<Rightarrow> JUndefined | Some v \<Rightarrow> v)
      else JUndefined)"

subsection \<open>Decimal rendering and \<^verbatim>\<open>String(v)\<close>\<close>

definition digit_char :: "nat \<Rightarrow> char" where
  "digit_char d = char_of (48 + d)"

fun showNat :: "nat \<Rightarrow> string" where
  "showNat n = (if n < 10 then [digit_char n] else showNat (n div 10) @ [digit_char (n mod 10)])"

declare showNat.simps [simp del]

definition showInt :: "int \<Rightarrow> string" where
  "showInt i = (if i < 0 then CHR ''-'' # showNat (nat (- i)) else showNat (nat i))"

text \<open>
  \<^verbatim>\<open>String(v)\<close>, the conversion a template literal and the result of a \<^verbatim>\<open>replace\<close>
  callback go through. An array joins its elements with commas, \<^verbatim>\<open>null\<close>,
  \<^verbatim>\<open>undefined\<close> and holes giving the empty string; an object gives
  \<^verbatim>\<open>[object Object]\<close>.
\<close>

fun toString :: "jsval \<Rightarrow> string"
  and joinElems :: "jsval option list \<Rightarrow> string"
  and elemString :: "jsval option \<Rightarrow> string" where
  "toString JUndefined = ''undefined''"
| "toString JNull = ''null''"
| "toString (JBool b) = (if b then ''true'' else ''false'')"
| "toString (JNum n) = showInt n"
| "toString (JStr s) = s"
| "toString (JArr xs) = joinElems xs"
| "toString (JObj es) = ''[object Object]''"
| "joinElems [] = []"
| "joinElems [x] = elemString x"
| "joinElems (x # y # ys) = elemString x @ '','' @ joinElems (y # ys)"
| "elemString None = []"
| "elemString (Some v) = (if nullish v then [] else toString v)"

section \<open>The schema: fields, indexes, model, parameters\<close>

text \<open>
  A field definition as \<^verbatim>\<open>Expression.js\<close> reads it: \<^verbatim>\<open>field.name\<close>,
  \<^verbatim>\<open>field.attribute\<close>, \<^verbatim>\<open>field.isIndexed\<close>, \<^verbatim>\<open>field.uuid\<close>, \<^verbatim>\<open>field.nulls\<close>
  (compared with \<^verbatim>\<open>true\<close>) and \<^verbatim>\<open>field.value\<close>, the template (\<open>None\<close> when the
  field has none).
\<close>

record field =
  name :: string
  attribute :: string
  isIndexed :: bool
  uuid :: bool
  nulls :: bool
  fvalue :: "string option"

section \<open>The value sanitizer\<close>

text \<open>
  \<^verbatim>\<open>removeEmptyStrings(field, obj)\<close>. The loop over \<^verbatim>\<open>Object.entries(obj)\<close> is
  \<open>removeArr\<close> for an array (the index counts the slots, holes are not entries) and
  \<open>removeObj\<close> for an object; the last argument is \<^verbatim>\<open>result\<close>. The three branches of
  the loop body are kept in the source's order: \<^verbatim>\<open>typeof value == 'object'\<close> is tested
  first.
\<close>

fun removeEmptyStrings :: "field \<Rightarrow> jsval \<Rightarrow> jsval"
  and removeArr :: "field \<Rightarrow> nat \<Rightarrow> jsval option list \<Rightarrow> jsval option list \<Rightarrow> jsval option list"
  and removeObj :: "field \<Rightarrow> obj \<Rightarrow> obj \<Rightarrow> obj" where
  "removeEmptyStrings f (JArr xs) = JArr (removeArr f 0 xs [])"
| "removeEmptyStrings f (JObj es) = JObj (removeObj f es [])"
| "removeEmptyStrings f JUndefined = JUndefined"
| "removeEmptyStrings f JNull = JNull"
| "removeEmptyStrings f (JBool b) = JBool b"
| "removeEmptyStrings f (JNum n) = JNum n"
| "removeEmptyStrings f (JStr s) = JStr s"
| "removeArr f i [] res = res"
| "removeArr f i (None # xs) res = removeArr f (Suc i) xs res"
| "removeArr f i (Some v # xs) res =
     removeArr f (Suc i) xs
       (if typeof_object v then arr_set res i (removeEmptyStrings f v)
        else if v = JNull \<and> \<not> nulls f then res
        else if v \<noteq> JStr [] then arr_set res i v
        else res)"
| "removeObj f [] res = res"
| "removeObj f ((k, v) # es) res =
     removeObj f es
       (if typeof_object v then obj_set res k (removeEmptyStrings f v)
        else if v = JNull \<and> \<not> nulls f then res
        else if v \<noteq> JStr [] then obj_set res k v
        else res)"

section \<open>Regular-expression scanning\<close>

text \<open>
  The source uses two global patterns, \<^verbatim>\<open>/\${(.*?)}/g\<close> and \<^verbatim>\<open>/{(.*?)}/g\<close>. Both end in
  the lazy group \<^verbatim>\<open>(.*?)}\<close>: from the position after the opening, it takes characters up
  to the first \<^verbatim>\<open>}\<close>, and fails when a line terminator or the end of the string comes
  first (\<^verbatim>\<open>.\<close> does not match a line terminator; of the four of JavaScript, byte strings
  have the line feed and the carriage return). \<open>lazyUntilBrace\<close> returns the captured
  group and the text after the match.
\<close>

definition lineTerminator :: "char \<Rightarrow> bool" where
  "lineTerminator c = (c = CHR 0x0A \<or> c = CHR 0x0D)"

fun lazyUntilBrace :: "string \<Rightarrow> (string \<times> string) option" where
  "lazyUntilBrace [] = None"
| "lazyUntilBrace (c # cs) =
     (if c = CHR ''}'' then Some ([], cs)
      else if lineTerminator c then None
      else (case lazyUntilBrace cs of None \<Rightarrow> None | Some (n, r) \<Rightarrow> Some (c # n, r)))"

lemma lazyUntilBrace_shorter:
  "lazyUntilBrace cs = Some (n, r) \<Longrightarrow> length r < length cs"
  by (induction cs arbitrary: n r) (auto split: if_splits option.splits)

text \<open>
  A global \<^verbatim>\<open>replace\<close> finds the matches from left to right, each search starting where
  the previous match ended, and calls the replacer on each match in that order. The
  scan gives the string as its pieces: unmatched characters and matches (with the
  captured group).
\<close>

datatype piece = Lit char | Tok string

function scanDollar :: "string \<Rightarrow> piece list" where
  "scanDollar [] = []"
| "scanDollar [c] = [Lit c]"
| "scanDollar (a # b # cs) =
     (if a = CHR ''$'' \<and> b = CHR ''{'' then
        (case lazyUntilBrace cs of
           Some (n, r) \<Rightarrow> Tok n # scanDollar r
         | None \<Rightarrow> Lit a # scanDollar (b # cs))
      else Lit a # scanDollar (b # cs))"
  by pat_completeness auto
termination
  by (relation "measure length") (auto dest: lazyUntilBrace_shorter)

function scanBrace :: "string \<Rightarrow> piece list" where
  "scanBrace [] = []"
| "scanBrace (a # cs) =
     (if a = CHR ''{'' then
        (case lazyUntilBrace cs of
           Some (n, r) \<Rightarrow> Tok n # scanBrace r
         | None \<Rightarrow> Lit a # scanBrace cs)
      else Lit a # scanBrace cs)"
  by pat_completeness auto
termination
  by (relation "measure length") (auto dest: lazyUntilBrace_shorter)

text \<open>\<^verbatim>\<open>s.replace(/\${(.*?)}/g, f)\<close> for a replacer without side effects.\<close>

definition replaceDollar :: "(string \<Rightarrow> string) \<Rightarrow> string \<Rightarrow> string" where
  "replaceDollar f s = concat (map (\<lambda>p. case p of Lit c \<Rightarrow> [c] | Tok n \<Rightarrow> f n) (scanDollar s))"

text \<open>\<^verbatim>\<open>s.indexOf('${') >= 0\<close>.\<close>

fun hasDollarBrace :: "string \<Rightarrow> bool" where
  "hasDollarBrace (a # b # cs) = ((a = CHR ''$'' \<and> b = CHR ''{'') \<or> hasDollarBrace (b # cs))"
| "hasDollarBrace cs = False"

text \<open>
  \<^verbatim>\<open>s.replace(RegExp(`${sep}${sep}+$`, 'g'), '')\<close> for a delimiter that is one character
  and not a metacharacter of regular expressions (\<^verbatim>\<open>:\<close> or \<^verbatim>\<open>#\<close>, say): the pattern
  matches a run of two or more delimiters that ends the string, and the leftmost match
  is the whole trailing run.
\<close>

definition stripTrailingDelims :: "char \<Rightarrow> string \<Rightarrow> string" where
  "stripTrailingDelims sep s =
     (if 2 \<le> length (takeWhile (\<lambda>c. c = sep) (rev s))
      then rev (dropWhile (\<lambda>c. c = sep) (rev s)) else s)"

fun joinWith :: "string \<Rightarrow> string list \<Rightarrow> string" where
  "joinWith sep [] = []"
| "joinWith sep [x] = x"
| "joinWith sep (x # y # ys) = x @ sep @ joinWith sep (y # ys)"

section \<open>Indexes, model, parameters and the expression\<close>

datatype operation = Delete | Find | Get | Put | Scan | Update

fun opName :: "operation \<Rightarrow> string" where
  "opName Delete = ''delete''"
| "opName Find = ''find''"
| "opName Get = ''get''"
| "opName Put = ''put''"
| "opName Scan = ''scan''"
| "opName Update = ''update''"

text \<open>An index: \<^verbatim>\<open>index.hash\<close> and the optional \<^verbatim>\<open>index.sort\<close>.\<close>

record index =
  hash :: string
  sort_key :: "string option"

text \<open>
  \<^verbatim>\<open>model.table\<close>: the ambient context and the identifier generator. The generator is
  a parameter: \<open>table_uuid t k\<close> is what the \<open>k\<close>-th call of \<^verbatim>\<open>table.uuid()\<close> returns.
\<close>

record table =
  tcontext :: obj
  table_uuid :: "nat \<Rightarrow> string"

text \<open>
  The model: \<^verbatim>\<open>model.indexes\<close> (by name, \<^verbatim>\<open>primary\<close> among them), \<^verbatim>\<open>model.fields\<close> (the
  entries of the field table, in order), \<^verbatim>\<open>model.map\<close>, \<^verbatim>\<open>model.delimiter\<close>,
  \<^verbatim>\<open>model.tableName\<close> and \<^verbatim>\<open>model.table\<close>.
\<close>

record model =
  m_indexes :: "(string \<times> index) list"
  m_fields :: "(string \<times> field) list"
  m_map :: "(string \<times> string) list"
  m_delimiter :: char
  m_tableName :: string
  m_table :: table

text \<open>
  The options \<^verbatim>\<open>params\<close> carries, each with the type the source uses it at: an option
  only tested for truth is a \<open>bool\<close>, an optional string is a \<open>string option\<close>
  (\<open>None\<close> when not given), \<^verbatim>\<open>exists\<close> and \<^verbatim>\<open>execute\<close> are compared with
  \<^verbatim>\<open>true\<close>/\<^verbatim>\<open>false\<close>, \<^verbatim>\<open>add\<close> and \<^verbatim>\<open>delete\<close> are objects, \<^verbatim>\<open>remove\<close> is any value (the
  source tests \<^verbatim>\<open>Array.isArray\<close>). \<open>p_preFormat\<close> and \<open>p_postFormat\<close> say whether the
  hook is given.
\<close>

record params =
  p_execute :: "bool option"
  p_index :: "string option"
  p_exists :: "bool option"
  p_type :: "string option"
  p_where :: "string option"
  p_add :: "obj option"
  p_remove :: jsval
  p_delete :: "obj option"
  p_batch :: bool
  p_metrics :: bool
  p_capacity :: "string option"
  p_return :: "string option"
  p_consistent :: bool
  p_limit :: jsval
  p_reverse :: bool
  p_start :: jsval
  p_high :: bool
  p_preFormat :: bool
  p_postFormat :: bool

text \<open>Truthiness of an optional string: given and not empty.\<close>

definition truthyS :: "string option \<Rightarrow> bool" where
  "truthyS s = (case s of None \<Rightarrow> False | Some x \<Rightarrow> x \<noteq> [])"

text \<open>\<^verbatim>\<open>s || d\<close> on an optional string.\<close>

definition strOr :: "string option \<Rightarrow> string \<Rightarrow> string" where
  "strOr s d = (case s of None \<Rightarrow> d | Some x \<Rightarrow> if x = [] then d else x)"

text \<open>An optional string inside a template literal.\<close>

definition showOpt :: "string option \<Rightarrow> string" where
  "showOpt s = (case s of None \<Rightarrow> ''undefined'' | Some x \<Rightarrow> x)"

text \<open>
  The translation context. \<^verbatim>\<open>this.hash\<close> and \<^verbatim>\<open>this.sort\<close> are \<open>hash (index e)\<close> and
  \<open>sort_key (index e)\<close>: the constructor copies them from the index and nothing assigns
  them again. \<^verbatim>\<open>this.values\<close> is \<open>vals\<close> and
  \<^verbatim>\<open>this.fields\<close> (the projection list) is \<open>proj_fields\<close>. \<open>uuidCalls\<close> counts the calls of
  \<^verbatim>\<open>table.uuid()\<close> made so far.
\<close>

record expression =
  model :: model
  table :: table
  op :: operation
  params :: params
  properties :: obj
  conditions :: "string list"
  proj_fields :: "string list"
  filters :: "string list"
  key :: obj
  keys :: "string list"
  updates :: "string list"
  names :: "(string \<times> string) list"
  vals :: obj
  fieldValues :: obj
  nindex :: nat
  vindex :: nat
  fallback :: bool
  execute :: bool
  delimiter :: char
  tableName :: string
  index :: index
  uuidCalls :: nat

definition nameTok :: "nat \<Rightarrow> string" where
  "nameTok n = ''#_'' @ showNat n"

definition valueTok :: "nat \<Rightarrow> string" where
  "valueTok n = '':_'' @ showNat n"

section \<open>The template resolver\<close>

text \<open>
  The replacer of \<^verbatim>\<open>template\<close>: the context's value for the captured name, converted to
  a string by \<^verbatim>\<open>replace\<close>, or the match itself when the context does not define the name.
\<close>

definition substContext :: "obj \<Rightarrow> string \<Rightarrow> string" where
  "substContext context s =
     replaceDollar (\<lambda>varName.
        if obj_get context varName \<noteq> JUndefined then toString (obj_get context varName)
        else ''${'' @ varName @ ''}'') s"

text \<open>The loop over the contexts, left as soon as \<^verbatim>\<open>s\<close> holds no \<^verbatim>\<open>${\<close>.\<close>

fun substContexts :: "string \<Rightarrow> obj list \<Rightarrow> string" where
  "substContexts s [] = s"
| "substContexts s (context # contexts) =
     (if \<not> hasDollarBrace s then s else substContexts (substContext context s) contexts)"

text \<open>
  \<^verbatim>\<open>template(field, properties, ...contexts)\<close>. The rest arguments come first in
  \<^verbatim>\<open>contexts\<close> and \<^verbatim>\<open>contexts.push(properties)\<close> puts the properties last.
\<close>

definition template :: "expression \<Rightarrow> field \<Rightarrow> obj \<Rightarrow> obj list \<Rightarrow> jsval" where
  "template e field props rest =
     (let contexts = rest @ [props] in
      case fvalue field of
        None \<Rightarrow>
          (case find (\<lambda>context. obj_get context (name field) \<noteq> JUndefined) contexts of
             Some context \<Rightarrow> obj_get context (name field)
           | None \<Rightarrow> JUndefined)
      | Some s0 \<Rightarrow>
          (let s = substContexts s0 contexts in
           if hasDollarBrace s then
             (if Some (attribute field) = sort_key (index e) \<and> op e = Find
                 \<and> \<not> truthyS (p_where (params e)) then
                (let s1 = replaceDollar (\<lambda>varName. []) s;
                     s2 = stripTrailingDelims (delimiter e) s1
                 in if s2 \<noteq> [] then JObj [(''begins'', JStr s2)] else JUndefined)
              else JUndefined)
           else JStr s))"

section \<open>The expression assemblers\<close>

text \<open>\<^verbatim>\<open>addFilter(attribute, value)\<close>.\<close>

definition addFilter :: "expression \<Rightarrow> string \<Rightarrow> jsval \<Rightarrow> expression" where
  "addFilter e attr v =
     e\<lparr>filters := filters e @ [nameTok (nindex e) @ '' = '' @ valueTok (vindex e)],
       names := obj_set (names e) (nameTok (nindex e)) attr,
       vals := obj_set (vals e) (valueTok (vindex e)) v,
       nindex := Suc (nindex e),
       vindex := Suc (vindex e)\<rparr>"

text \<open>\<^verbatim>\<open>addKey(field, value)\<close>.\<close>

definition addKey :: "expression \<Rightarrow> field \<Rightarrow> jsval \<Rightarrow> expression" where
  "addKey e field v = e\<lparr>key := obj_set (key e) (attribute field) v\<rparr>"

text \<open>
  \<^verbatim>\<open>Object.entries(value)[0]\<close> destructured into \<^verbatim>\<open>[action, vars]\<close>, for the values whose
  \<^verbatim>\<open>typeof\<close> is \<^verbatim>\<open>'object'\<close>: \<^verbatim>\<open>Object.entries(null)\<close> raises, and so does destructuring
  the \<^verbatim>\<open>undefined\<close> that an object or array without entries gives.
\<close>

fun firstSlot :: "nat \<Rightarrow> jsval option list \<Rightarrow> (string \<times> jsval) option" where
  "firstSlot i [] = None"
| "firstSlot i (None # xs) = firstSlot (Suc i) xs"
| "firstSlot i (Some v # xs) = Some (showNat i, v)"

definition firstEntry :: "jsval \<Rightarrow> error + (string \<times> jsval)" where
  "firstEntry v =
     (case v of
        JObj es \<Rightarrow>
          (case es of [] \<Rightarrow> Inl (TypeError ''undefined is not iterable'') | en # _ \<Rightarrow> Inr en)
      | JArr xs \<Rightarrow>
          (case firstSlot 0 xs of
             None \<Rightarrow> Inl (TypeError ''undefined is not iterable'')
           | Some en \<Rightarrow> Inr en)
      | _ \<Rightarrow> Inl (TypeError ''Cannot convert undefined or null to object''))"

text \<open>\<^verbatim>\<open>vars[i]\<close> on any value: it raises on \<^verbatim>\<open>null\<close> and \<^verbatim>\<open>undefined\<close>.\<close>

definition index_get :: "jsval \<Rightarrow> nat \<Rightarrow> error + jsval" where
  "index_get v i =
     (case v of
        JUndefined \<Rightarrow> Inl (TypeError ''Cannot read properties of undefined'')
      | JNull \<Rightarrow> Inl (TypeError ''Cannot read properties of null'')
      | JArr xs \<Rightarrow> Inr (arr_get xs i)
      | JObj es \<Rightarrow> Inr (obj_get es (showNat i))
      | JStr s \<Rightarrow> Inr (if i < length s then JStr [s ! i] else JUndefined)
      | _ \<Rightarrow> Inr JUndefined)"

text \<open>
  \<^verbatim>\<open>addKeys(field, value)\<close>. The name placeholder is bound after the branches, whatever
  branch ran.
\<close>

definition addKeys :: "expression \<Rightarrow> field \<Rightarrow> jsval \<Rightarrow> error + expression" where
  "addKeys e field v =
     (let n = nindex e; i = vindex e;
          bindName = (\<lambda>e'. e'\<lparr>names := obj_set (names e') (nameTok n) (attribute field),
                             nindex := Suc n\<rparr>)
      in
      if typeof_object v then
        (case firstEntry v of
           Inl err \<Rightarrow> Inl err
         | Inr (action, vars) \<Rightarrow>
             if action = ''begins'' \<or> action = ''begins_with'' then
               Inr (bindName (e\<lparr>keys := keys e @ [''begins_with('' @ nameTok n @ '', '' @ valueTok i @ '')''],
                                vals := obj_set (vals e) (valueTok i) vars,
                                vindex := Suc i\<rparr>))
             else if action = ''between'' then
               (case index_get vars 0 of
                  Inl err \<Rightarrow> Inl err
                | Inr v0 \<Rightarrow>
                    (case index_get vars 1 of
                       Inl err \<Rightarrow> Inl err
                     | Inr v1 \<Rightarrow>
                         Inr (bindName (e\<lparr>keys := keys e @ [''between('' @ nameTok n @ '', '' @ valueTok i
                                                               @ '', '' @ valueTok (i + 1) @ '')''],
                                          vals := obj_set (obj_set (vals e) (valueTok i) v0)
                                                    (valueTok (Suc i)) v1,
                                          vindex := Suc (Suc i)\<rparr>))))
             else Inr (bindName e))
      else
        Inr (bindName (e\<lparr>keys := keys e @ [nameTok n @ '' = '' @ valueTok i],
                         vals := obj_set (vals e) (valueTok i) v,
                         vindex := Suc i\<rparr>)))"

text \<open>\<^verbatim>\<open>addUpdate(field, value)\<close>.\<close>

definition addUpdate :: "expression \<Rightarrow> field \<Rightarrow> jsval \<Rightarrow> expression" where
  "addUpdate e field v =
     (if isIndexed field \<or> p_add (params e) \<noteq> None \<or> truthy (p_remove (params e))
         \<or> p_delete (params e) \<noteq> None then e
      else e\<lparr>updates := updates e @ [nameTok (nindex e) @ '' = '' @ valueTok (vindex e)],
             names := obj_set (names e) (nameTok (nindex e)) (attribute field),
             vals := obj_set (vals e) (valueTok (vindex e)) v,
             nindex := Suc (nindex e),
             vindex := Suc (vindex e)\<rparr>)"

text \<open>The loop of the \<^verbatim>\<open>add\<close> and \<^verbatim>\<open>delete\<close> branches of \<^verbatim>\<open>addUpdates\<close>.\<close>

fun addPairs :: "expression \<Rightarrow> obj \<Rightarrow> expression" where
  "addPairs e [] = e"
| "addPairs e ((k, v) # es) =
     addPairs (e\<lparr>updates := updates e @ [nameTok (nindex e) @ '' '' @ valueTok (vindex e)],
                 names := obj_set (names e) (nameTok (nindex e)) k,
                 vals := obj_set (vals e) (valueTok (vindex e)) v,
                 nindex := Suc (nindex e),
                 vindex := Suc (vindex e)\<rparr>) es"

text \<open>
  \<^verbatim>\<open>addUpdates()\<close>. In the \<^verbatim>\<open>remove\<close> branch the loop variable is \<^verbatim>\<open>fields\<close> and the
  body assigns \<^verbatim>\<open>key\<close>, which no enclosing scope declares (the \<^verbatim>\<open>key\<close> of the other
  two branches is local to their loops): evaluating it raises a \<^verbatim>\<open>ReferenceError\<close> in
  the first iteration. A list without elements runs no iteration.
\<close>

definition addUpdates :: "expression \<Rightarrow> error + expression" where
  "addUpdates e =
     (case p_add (params e) of
        Some es \<Rightarrow> Inr (addPairs e es)
      | None \<Rightarrow>
          if truthy (p_remove (params e)) then
            (let removeList = (case p_remove (params e) of JArr xs \<Rightarrow> xs | r \<Rightarrow> [Some r]);
                 e1 = e\<lparr>params := (params e)\<lparr>p_remove := JArr removeList\<rparr>\<rparr>
             in if removeList = [] then Inr e1
                else Inl (ReferenceError ''key is not defined''))
          else
            (case p_delete (params e) of
               Some es \<Rightarrow> Inr (addPairs e es)
             | None \<Rightarrow> Inr e))"

section \<open>The where-clause compiler\<close>

text \<open>
  The first \<^verbatim>\<open>replace\<close> of \<^verbatim>\<open>makeConditions\<close>: each \<^verbatim>\<open>${var}\<close> binds a new name
  placeholder to \<^verbatim>\<open>this.model.map[varName] || varName\<close>.
\<close>

definition mapped :: "(string \<times> string) list \<Rightarrow> string \<Rightarrow> string" where
  "mapped m varName = (case map_of m varName of None \<Rightarrow> varName | Some a \<Rightarrow> if a = [] then varName else a)"

fun bindNames :: "expression \<Rightarrow> piece list \<Rightarrow> string \<times> expression" where
  "bindNames e [] = ([], e)"
| "bindNames e (Lit c # ps) = (let (s, e') = bindNames e ps in (c # s, e'))"
| "bindNames e (Tok varName # ps) =
     (let e1 = e\<lparr>names := obj_set (names e) (nameTok (nindex e)) (mapped (m_map (model e)) varName),
                  nindex := Suc (nindex e)\<rparr>;
          (s, e') = bindNames e1 ps
      in (nameTok (nindex e) @ s, e'))"

text \<open>
  The literal a \<^verbatim>\<open>{value}\<close> token stands for: digits are a number, a double-quoted text is
  the text, \<^verbatim>\<open>true\<close> and \<^verbatim>\<open>false\<close> are booleans, anything else is the raw text.
\<close>

definition isDigit :: "char \<Rightarrow> bool" where
  "isDigit c = (48 \<le> (of_char c :: nat) \<and> (of_char c :: nat) \<le> 57)"

definition digitsValue :: "string \<Rightarrow> int" where
  "digitsValue s = foldl (\<lambda>acc c. acc * 10 + (of_char c - 48)) 0 s"

definition parseLiteral :: "string \<Rightarrow> jsval" where
  "parseLiteral v =
     (if v \<noteq> [] \<and> list_all isDigit v then JNum (digitsValue v)
      else if 2 \<le> length v \<and> hd v = CHR 0x22 \<and> last v = CHR 0x22 then JStr (butlast (tl v))
      else if v = ''true'' \<or> v = ''false'' then JBool (v = ''true'')
      else JStr v)"

fun bindValues :: "expression \<Rightarrow> piece list \<Rightarrow> string \<times> expression" where
  "bindValues e [] = ([], e)"
| "bindValues e (Lit c # ps) = (let (s, e') = bindValues e ps in (c # s, e'))"
| "bindValues e (Tok v # ps) =
     (let e1 = e\<lparr>vals := obj_set (vals e) (valueTok (vindex e)) (parseLiteral v),
                  vindex := Suc (vindex e)\<rparr>;
          (s, e') = bindValues e1 ps
      in (valueTok (vindex e) @ s, e'))"

text \<open>\<^verbatim>\<open>makeConditions(where)\<close>: the compiled clause and the context after the bindings.\<close>

definition makeConditions :: "expression \<Rightarrow> string \<Rightarrow> string \<times> expression" where
  "makeConditions e wh =
     (let (w1, e1) = bindNames e (scanDollar wh);
          (w2, e2) = bindValues e1 (scanBrace w1)
      in (w2, e2))"

section \<open>Conditions, filters and field routing\<close>

text \<open>
  \<^verbatim>\<open>addConditions(op)\<close>. \<open>addExistsType\<close> is its first part, the conditions for
  \<^verbatim>\<open>params.exists\<close> and \<^verbatim>\<open>params.type\<close>; the bulk updates and the where clause follow.
\<close>

definition addExistsType :: "expression \<Rightarrow> expression" where
  "addExistsType e =
     (let ps = params e;
          h = hash (index e);
          s = showOpt (sort_key (index e));
          e1 = (if p_exists ps = Some True then
                  e\<lparr>conditions := conditions e @ [''attribute_exists('' @ h @ '')'',
                                                   ''attribute_exists('' @ s @ '')'']\<rparr>
                else if p_exists ps = Some False then
                  e\<lparr>conditions := conditions e @ [''attribute_not_exists('' @ h @ '')'',
                                                   ''attribute_not_exists('' @ s @ '')'']\<rparr>
                else e)
      in if truthyS (p_type ps) then
           e1\<lparr>conditions := conditions e1
                @ [''attribute_type('' @ s @ '', '' @ showOpt (p_type ps) @ '')'']\<rparr>
         else e1)"

definition addConditions :: "expression \<Rightarrow> operation \<Rightarrow> error + expression" where
  "addConditions e opn =
     (let ps = params e in
      case (if opn = Update \<and> (p_add ps \<noteq> None \<or> truthy (p_remove ps) \<or> p_delete ps \<noteq> None)
            then addUpdates (addExistsType e) else Inr (addExistsType e)) of
        Inl err \<Rightarrow> Inl err
      | Inr e3 \<Rightarrow>
          (case p_where ps of
             Some wh \<Rightarrow>
               if wh \<noteq> [] \<and> (opn = Delete \<or> opn = Update) then
                 (let (w, e4) = makeConditions e3 wh
                  in Inr (e4\<lparr>conditions := conditions e4 @ [w]\<rparr>))
               else Inr e3
           | None \<Rightarrow> Inr e3))"

text \<open>\<^verbatim>\<open>addFilters()\<close>.\<close>

definition addFilters :: "expression \<Rightarrow> expression" where
  "addFilters e =
     (case p_where (params e) of
        Some wh \<Rightarrow>
          if wh \<noteq> [] then
            (let (w, e1) = makeConditions e wh in e1\<lparr>filters := filters e1 @ [w]\<rparr>)
          else e
      | None \<Rightarrow> e)"

text \<open>\<^verbatim>\<open>add(field, value)\<close>.\<close>

definition add :: "expression \<Rightarrow> field \<Rightarrow> jsval \<Rightarrow> error + expression" where
  "add e field v =
     (let opn = op e in
      case (if isIndexed field then
              (if attribute field = hash (index e) \<or> Some (attribute field) = sort_key (index e) then
                 (if opn = Find then addKeys e field v
                  else if (opn = Delete \<or> opn = Get \<or> opn = Update) \<and> isIndexed field then
                    Inr (addKey e field v)
                  else Inr e)
               else Inr e)
            else
              (if opn = Find \<or> opn = Scan then Inr (addFilter e (attribute field) v)
               else Inr e)) of
        Inl err \<Rightarrow> Inl err
      | Inr e1 \<Rightarrow>
          (let e2 = (if opn = Delete \<or> opn = Put \<or> opn = Update then
                       (if opn = Put then e1\<lparr>vals := obj_set (vals e1) (attribute field) v\<rparr>
                        else if opn = Update then addUpdate e1 field v
                        else e1)
                     else e1)
           in Inr (e2\<lparr>fieldValues := obj_set (fieldValues e2) (attribute field) v\<rparr>)))"

section \<open>Index selection and field parsing\<close>

text \<open>
  \<^verbatim>\<open>selectIndex(indexes, params)\<close>: the index (\<open>None\<close> for \<^verbatim>\<open>undefined\<close>, when the table
  has no index of that name) and the value it leaves in \<^verbatim>\<open>this.fallback\<close>.
\<close>

definition selectIndex :: "(string \<times> index) list \<Rightarrow> operation \<Rightarrow> params \<Rightarrow> index option \<times> bool" where
  "selectIndex indexes opn ps =
     (case p_index ps of
        Some nm \<Rightarrow>
          if nm \<noteq> [] \<and> nm \<noteq> ''primary'' then (map_of indexes nm, opn \<noteq> Find \<and> opn \<noteq> Scan)
          else (map_of indexes ''primary'', False)
      | None \<Rightarrow> (map_of indexes ''primary'', False))"

text \<open>
  The head of the loop body of \<^verbatim>\<open>parseFields\<close>, up to the call of \<^verbatim>\<open>add\<close>: the field is
  skipped (\<^verbatim>\<open>continue\<close>), or the fallback is set and \<^verbatim>\<open>parseFields\<close> returns, or the
  field goes to \<^verbatim>\<open>add\<close> with a value.
\<close>

datatype resolved = Continue | ReturnFallback | AddValue jsval expression

definition resolveField :: "expression \<Rightarrow> field \<Rightarrow> obj \<Rightarrow> resolved" where
  "resolveField e field props =
     (let v = template e field props [tcontext (table e)] in
      if v = JUndefined \<or> v = JNull \<or> v = JStr [] then
        (if uuid field \<and> op e = Put then
           AddValue (JStr (table_uuid (table e) (uuidCalls e))) (e\<lparr>uuidCalls := Suc (uuidCalls e)\<rparr>)
         else if Some (name field) = sort_key (index e) \<and> p_high (params e) then ReturnFallback
         else if v = JUndefined \<or> (v = JNull \<and> \<not> nulls field) then Continue
         else AddValue v e)
      else if typeof_object v then AddValue (removeEmptyStrings field v) e
      else AddValue v e)"

text \<open>
  The loop of \<^verbatim>\<open>parseFields\<close>. The boolean says whether a \<^verbatim>\<open>return\<close> inside the loop
  left \<^verbatim>\<open>parseFields\<close>.
\<close>

fun parseLoop :: "expression \<Rightarrow> (string \<times> field) list \<Rightarrow> obj \<Rightarrow> error + (bool \<times> expression)" where
  "parseLoop e [] props = Inr (False, e)"
| "parseLoop e ((fieldName, field) # rest) props =
     (case resolveField e field props of
        Continue \<Rightarrow> parseLoop e rest props
      | ReturnFallback \<Rightarrow> Inr (True, e\<lparr>fallback := True\<rparr>)
      | AddValue v e1 \<Rightarrow>
          (case add e1 field v of
             Inl err \<Rightarrow> Inl err
           | Inr e2 \<Rightarrow> if fallback e2 then Inr (True, e2) else parseLoop e2 rest props))"

text \<open>The loop over \<^verbatim>\<open>Object.entries(properties)\<close> that a scan runs last.\<close>

fun scanProps :: "expression \<Rightarrow> (string \<times> field) list \<Rightarrow> obj \<Rightarrow> expression" where
  "scanProps e flds [] = e"
| "scanProps e flds ((nm, v) # rest) =
     (if map_of flds nm \<noteq> None \<or> nullish v then scanProps e flds rest
      else scanProps ((addFilter e nm v)\<lparr>fieldValues := obj_set (fieldValues e) nm v\<rparr>) flds rest)"

text \<open>\<^verbatim>\<open>parseFields(fields, properties)\<close>.\<close>

definition parseFields :: "expression \<Rightarrow> (string \<times> field) list \<Rightarrow> obj \<Rightarrow> error + expression" where
  "parseFields e flds props =
     (let opn = op e in
      case parseLoop e flds props of
        Inl err \<Rightarrow> Inl err
      | Inr (True, e1) \<Rightarrow> Inr e1
      | Inr (False, e1) \<Rightarrow>
          if opn \<noteq> Scan \<and> nullish (obj_get (fieldValues e1) (hash (index e1))) then
            Inl (Error ''dynamo: Empty primary hash key'')
          else
            (case (if opn = Delete \<or> opn = Put \<or> opn = Update then addConditions e1 opn
                   else if opn = Find \<or> opn = Scan then Inr (addFilters e1)
                   else Inr e1) of
               Inl err \<Rightarrow> Inl err
             | Inr e2 \<Rightarrow> if opn = Scan then Inr (scanProps e2 flds props) else Inr e2))"

text \<open>
  The constructor. Reading \<^verbatim>\<open>this.index.hash\<close> raises when \<^verbatim>\<open>selectIndex\<close> returned
  \<^verbatim>\<open>undefined\<close>. \<open>initExpression\<close> is the context as the constructor has set it up when
  it decides whether to parse the fields.
\<close>

definition initExpression :: "model \<Rightarrow> operation \<Rightarrow> obj \<Rightarrow> params \<Rightarrow> index \<Rightarrow> bool \<Rightarrow> expression" where
  "initExpression m opn props ps ix fb =
     \<lparr>model = m, table = m_table m, op = opn, params = ps, properties = props,
      conditions = [], proj_fields = [], filters = [], key = [], keys = [], updates = [],
      names = [], vals = [], fieldValues = [], nindex = 0, vindex = 0, fallback = fb,
      execute = (p_execute ps \<noteq> Some False), delimiter = m_delimiter m,
      tableName = m_tableName m, index = ix, uuidCalls = 0\<rparr>"

definition newExpression :: "model \<Rightarrow> operation \<Rightarrow> obj \<Rightarrow> params \<Rightarrow> error + expression" where
  "newExpression m opn props ps =
     (case selectIndex (m_indexes m) opn ps of
        (None, fb) \<Rightarrow> Inl (TypeError ''Cannot read properties of undefined'')
      | (Some ix, fb) \<Rightarrow>
          (let e = initExpression m opn props ps ix fb in
           if \<not> fallback e then parseFields e (m_fields (model e)) props else Inr e))"

section \<open>The parameter composer\<close>

text \<open>\<^verbatim>\<open>and(terms)\<close>.\<close>

definition and_terms :: "string list \<Rightarrow> string" where
  "and_terms terms =
     (if length terms = 1 then joinWith [] terms
      else joinWith '' and '' (map (\<lambda>t. ''('' @ t @ '')'') terms))"

text \<open>\<^verbatim>\<open>getAction(params)\<close>.\<close>

definition getAction :: "params \<Rightarrow> string" where
  "getAction ps =
     (if p_add ps \<noteq> None then ''add''
      else if truthy (p_remove ps) then ''remove''
      else if p_delete ps \<noteq> None then ''delete''
      else ''set'')"

text \<open>
  \<^verbatim>\<open>prepare()\<close> builds \<^verbatim>\<open>args\<close> in steps, one definition per block of the source, in the
  source's order. \<open>argsLiteral\<close> is the object literal \<^verbatim>\<open>args\<close> starts as.
\<close>

definition argsLiteral :: "expression \<Rightarrow> obj" where
  "argsLiteral e =
     [(''ConditionExpression'',
         if conditions e \<noteq> [] then JStr (and_terms (conditions e)) else JUndefined),
      (''ExpressionAttributeNames'',
         if length (names e) > 0 then JObj (map (\<lambda>(k, a). (k, JStr a)) (names e))
         else JUndefined),
      (''ExpressionAttributeValues'',
         if length (names e) > 0 then JObj (vals e) else JUndefined),
      (''FilterExpression'',
         if filters e \<noteq> [] then JStr (and_terms (filters e)) else JUndefined),
      (''KeyConditionExpression'',
         if keys e \<noteq> [] then JStr (joinWith '' and '' (keys e)) else JUndefined),
      (''ProjectionExpression'',
         if proj_fields e \<noteq> [] then JStr (joinWith '', '' (proj_fields e)) else JUndefined)]"

definition argsTable :: "expression \<Rightarrow> obj \<Rightarrow> obj" where
  "argsTable e args =
     (if \<not> p_batch (params e) then obj_set args ''TableName'' (JStr (tableName e)) else args)"

text \<open>
  The \<^verbatim>\<open>metrics\<close> block. Its second statement,
  \<^verbatim>\<open>args.ReturnItemCollectionMetrics || 'SIZE'\<close>, is an expression without an assignment
  and leaves \<^verbatim>\<open>args\<close> as it is.
\<close>

definition argsMetrics :: "expression \<Rightarrow> obj \<Rightarrow> obj" where
  "argsMetrics e args =
     (if p_metrics (params e) then
        obj_set args ''ReturnConsumedCapacity'' (JStr (strOr (p_capacity (params e)) ''TOTAL''))
      else args)"

definition argsOp :: "expression \<Rightarrow> obj \<Rightarrow> obj" where
  "argsOp e args =
     (if op e = Put then
        obj_set (obj_set args ''Item'' (JObj (vals e)))
          ''ReturnValues'' (JStr (strOr (p_return (params e)) ''NONE''))
      else if op e = Update then
        (let a = obj_set args ''ReturnValues'' (JStr (strOr (p_return (params e)) ''ALL_NEW''))
         in if updates e \<noteq> [] then
              obj_set a ''UpdateExpression''
                (JStr (getAction (params e) @ '' '' @ joinWith '', '' (updates e)))
            else a)
      else args)"

definition argsKey :: "expression \<Rightarrow> obj \<Rightarrow> obj" where
  "argsKey e args =
     (if op e = Delete \<or> op e = Get \<or> op e = Update then
        (if p_batch (params e) then obj_set args ''Keys'' (JObj (key e))
         else obj_set args ''Key'' (JObj (key e)))
      else args)"

definition argsRead :: "expression \<Rightarrow> obj \<Rightarrow> obj" where
  "argsRead e args =
     (if op e = Find \<or> op e = Get \<or> op e = Scan then
        obj_set (obj_set args ''ConsistentRead'' (JBool (p_consistent (params e))))
          ''IndexName''
          (if truthyS (p_index (params e)) then JStr (showOpt (p_index (params e))) else JNull)
      else args)"

definition argsPaging :: "expression \<Rightarrow> obj \<Rightarrow> obj" where
  "argsPaging e args =
     (if op e = Find \<or> op e = Scan then
        (let a = obj_set (obj_set args ''Limit''
                           (if truthy (p_limit (params e)) then p_limit (params e) else JUndefined))
                   ''ScanIndexForward'' (JBool (\<not> p_reverse (params e)))
         in if truthy (p_start (params e)) then obj_set a ''ExclusiveStartKey'' (p_start (params e))
            else a)
      else args)"

text \<open>
  \<^verbatim>\<open>prepare()\<close>, returning \<open>None\<close> for \<^verbatim>\<open>null\<close>. \<^verbatim>\<open>this.key\<close> is an object from the
  constructor on, so \<^verbatim>\<open>key == null\<close> is \<open>nullish (JObj (key e))\<close>. Both hooks are called
  with \<^verbatim>\<open>model\<close>, which \<^verbatim>\<open>prepare\<close> does not declare: a call raises a
  \<^verbatim>\<open>ReferenceError\<close>. The last step keeps the entries whose value is neither \<^verbatim>\<open>null\<close>
  nor \<^verbatim>\<open>undefined\<close>.
\<close>

definition prepare :: "expression \<Rightarrow> error + obj option" where
  "prepare e =
     (if fallback e then Inr None
      else if nullish (JObj (key e)) \<and> nullish (obj_get (vals e) (hash (index e))) \<and> op e \<noteq> Scan then
        Inl (Error (''dynamo: Cannot find hash key for '' @ [CHR 0x22] @ opName (op e) @ [CHR 0x22]))
      else if (op e = Get \<or> op e = Delete \<or> op e = Update) \<and> nullish (JObj (key e)) then Inr None
      else if p_preFormat (params e) then Inl (ReferenceError ''model is not defined'')
      else
        (let args = argsPaging e (argsRead e (argsKey e (argsOp e (argsMetrics e (argsTable e
                      (argsLiteral e))))));
             args' = filter (\<lambda>(k, v). \<not> nullish v) args
         in if p_postFormat (params e) then Inl (ReferenceError ''model is not defined'')
            else Inr (Some args')))"

text \<open>
  A translation as a caller runs it: construct the expression, then prepare the request.
  An error of either step is the error of the translation.
\<close>

definition translate :: "model \<Rightarrow> operation \<Rightarrow> obj \<Rightarrow> params \<Rightarrow> error + obj option" where
  "translate m opn props ps =
     (case newExpression m opn props ps of Inl err \<Rightarrow> Inl err | Inr e \<Rightarrow> prepare e)"

section \<open>A sample schema\<close>

text \<open>
  A table with a primary index on \<^verbatim>\<open>pk\<close>/\<^verbatim>\<open>sk\<close>, a secondary index \<^verbatim>\<open>gs1\<close>, and one
  attribute outside the indexes; \<open>ex_params\<close> is the empty options hash.
\<close>

definition ex_pk :: field where
  "ex_pk = \<lparr>name = ''pk'', attribute = ''pk'', isIndexed = True, uuid = False, nulls = False,
            fvalue = None\<rparr>"

definition ex_sk :: field where
  "ex_sk = \<lparr>name = ''sk'', attribute = ''sk'', isIndexed = True, uuid = False, nulls = False,
            fvalue = None\<rparr>"

definition ex_status :: field where
  "ex_status = \<lparr>name = ''status'', attribute = ''status'', isIndexed = False, uuid = False,
                nulls = False, fvalue = None\<rparr>"

definition ex_table :: table where
  "ex_table = \<lparr>tcontext = [], table_uuid = (\<lambda>k. ''id-'' @ showNat k)\<rparr>"

definition ex_model :: model where
  "ex_model =
     \<lparr>m_indexes = [(''primary'', \<lparr>hash = ''pk'', sort_key = Some ''sk''\<rparr>),
                   (''gs1'', \<lparr>hash = ''gs1pk'', sort_key = Some ''gs1sk''\<rparr>)],
      m_fields = [(''pk'', ex_pk), (''sk'', ex_sk), (''status'', ex_status)],
      m_map = [], m_delimiter = CHR '':'', m_tableName = ''T'', m_table = ex_table\<rparr>"

definition ex_params :: params where
  "ex_params =
     \<lparr>p_execute = None, p_index = None, p_exists = None, p_type = None, p_where = None,
      p_add = None, p_remove = JUndefined, p_delete = None, p_batch = False, p_metrics = False,
      p_capacity = None, p_return = None, p_consistent = False, p_limit = JUndefined,
      p_reverse = False, p_start = JUndefined, p_high = False, p_preFormat = False,
      p_postFormat = False\<rparr>"

text \<open>
  The two indexes of the sample table, and five contexts of sample translations: a get
  by key, a put without properties when its loop has ended, a delete with a where clause
  that holds a value token only, and a find and a high-level get at the moment their loops
  have parsed \<^verbatim>\<open>pk\<close>.
\<close>

definition ex_primary :: index where
  "ex_primary = \<lparr>hash = ''pk'', sort_key = Some ''sk''\<rparr>"

definition ex_gs1 :: index where
  "ex_gs1 = \<lparr>hash = ''gs1pk'', sort_key = Some ''gs1sk''\<rparr>"



definition ex_delete_where :: expression where
  "ex_delete_where =
     projr (newExpression ex_model Delete [(''pk'', JStr ''a''), (''sk'', JStr ''b'')]
              (ex_params\<lparr>p_where := Some ''x = {1}''\<rparr>))"

definition ex_find_after_pk :: expression where
  "ex_find_after_pk =
     snd (projr (parseLoop
        (initExpression ex_model Find [(''pk'', JStr ''a'')] ex_params ex_primary False)
        [(''pk'', ex_pk)] [(''pk'', JStr ''a'')]))"

definition ex_after_pk :: expression where
  "ex_after_pk =
     snd (projr (parseLoop
        (initExpression ex_model Get [(''pk'', JStr ''a'')] (ex_params\<lparr>p_high := True\<rparr>) ex_primary False)
        [(''pk'', ex_pk)] [(''pk'', JStr ''a'')]))"


text \<open>
  The part of the context that routing a field leaves as it is: the index, the
  operation, the parameters, the delimiter, the table and the fallback flag.
\<close>

definition sameSetting :: "expression \<Rightarrow> expression \<Rightarrow> bool" where
  "sameSetting e e' =
     (index e' = index e \<and> op e' = op e \<and> params e' = params e \<and> delimiter e' = delimiter e
      \<and> table e' = table e \<and> fallback e' = fallback e)"

text \<open>
  The placeholder maps of a translation that binds placeholders only (any but a put,
  which also writes the item's attributes into \<^verbatim>\<open>this.values\<close>): the name map holds the
  tokens \<^verbatim>\<open>#_0\<close>, ..., up to the name counter, in this order, and the value map the tokens
  \<^verbatim>\<open>:_0\<close>, ..., up to the value counter.
\<close>

definition placeholdersInOrder :: "expression \<Rightarrow> bool" where
  "placeholdersInOrder e =
     (map fst (names e) = map nameTok [0..<nindex e]
      \<and> map fst (vals e) = map valueTok [0..<vindex e])"

section \<open>Properties\<close>

lemma set_obj_set: "set (obj_set ob k v) = insert (k, v) {p \<in> set ob. fst p \<noteq> k}"
proof (cases "k \<in> fst ` set ob")
  case True
  then show ?thesis
    by (force simp: obj_set_def image_iff split: if_splits)
next
  case False
  then show ?thesis
    by (force simp: obj_set_def image_iff)
qed

lemma obj_set_other:
  "k' \<noteq> k \<Longrightarrow> ((k', x) \<in> set (obj_set ob k v)) = ((k', x) \<in> set ob)"
  by (simp add: set_obj_set)

subsection \<open>Reading an object after a write\<close>




subsection \<open>What routing a field leaves unchanged\<close>


lemma addKeys_setting:
  "addKeys e f v = Inr e' \<Longrightarrow> sameSetting e e' \<and> fieldValues e' = fieldValues e"
  unfolding addKeys_def Let_def
  by (auto simp: sameSetting_def split: if_splits sum.splits prod.splits)

lemma add_effect:
  assumes "add e f v = Inr e'"
  shows "sameSetting e e' \<and> fieldValues e' = obj_set (fieldValues e) (attribute f) v"
proof -
  from assms obtain e1 where e1: "addKeys e f v = Inr e1 \<or> e1 = addKey e f v
      \<or> e1 = addFilter e (attribute f) v \<or> e1 = e"
    and e2: "e' = e1\<lparr>fieldValues := obj_set (fieldValues e1) (attribute f) v\<rparr>
      \<or> e' = e1\<lparr>vals := obj_set (vals e1) (attribute f) v,
               fieldValues := obj_set (fieldValues e1) (attribute f) v\<rparr>
      \<or> e' = (addUpdate e1 f v)\<lparr>fieldValues := obj_set (fieldValues (addUpdate e1 f v)) (attribute f) v\<rparr>"
    by (auto simp: add_def Let_def split: if_splits sum.splits)
  from e1 have s1: "sameSetting e e1 \<and> fieldValues e1 = fieldValues e"
    using addKeys_setting [of e f v e1]
    by (auto simp: sameSetting_def addKey_def addFilter_def)
  have s2: "sameSetting e1 (addUpdate e1 f v) \<and> fieldValues (addUpdate e1 f v) = fieldValues e1"
    by (simp add: addUpdate_def sameSetting_def)
  from e2 s1 s2 show ?thesis
    by (auto simp: sameSetting_def)
qed


lemma resolveField_cases:
  "resolveField e f props = AddValue v e1 \<Longrightarrow>
     sameSetting e e1 \<and> fieldValues e1 = fieldValues e \<and> names e1 = names e \<and> vals e1 = vals e
     \<and> nindex e1 = nindex e \<and> vindex e1 = vindex e"
  by (auto simp: resolveField_def Let_def sameSetting_def split: if_splits)

subsection \<open>Key conditions\<close>

text \<open>
  The decimal rendering of a counter can be read back, so different counters give
  different tokens.
\<close>

lemma of_char_digit_char: "d < 10 \<Longrightarrow> (of_char (digit_char d) :: int) = 48 + int d"
proof -
  assume d: "d < 10"
  have "(of_char (digit_char d) :: int) = int (of_char (digit_char d))"
    by (simp only: of_nat_of_char)
  also have "\<dots> = int ((48 + d) mod 256)"
    by (simp only: digit_char_def of_char_of)
  also have "\<dots> = 48 + int d"
    using d by simp
  finally show ?thesis .
qed

lemma digitsValue_snoc: "digitsValue (s @ [c]) = digitsValue s * 10 + (of_char c - 48)"
  by (simp add: digitsValue_def)

lemma digitsValue_showNat: "digitsValue (showNat n) = int n"
proof (induction n rule: showNat.induct)
  case (1 n)
  show ?case
  proof (cases "n < 10")
    case True
    then have "showNat n = [digit_char n]" by (simp add: showNat.simps)
    with True show ?thesis by (simp add: digitsValue_def of_char_digit_char)
  next
    case False
    then have s: "showNat n = showNat (n div 10) @ [digit_char (n mod 10)]"
      by (subst showNat.simps) simp
    have "digitsValue (showNat n) = int (n div 10) * 10 + int (n mod 10)"
      using 1 [OF False] by (simp add: s digitsValue_snoc of_char_digit_char)
    also have "\<dots> = int n"
      by (simp add: zdiv_int zmod_int)
    finally show ?thesis .
  qed
qed

lemma showNat_inj: "showNat a = showNat b \<Longrightarrow> a = b"
proof -
  assume "showNat a = showNat b"
  then have "digitsValue (showNat a) = digitsValue (showNat b)" by simp
  then show "a = b" by (simp add: digitsValue_showNat)
qed

lemma nameTok_inj [simp]: "(nameTok a = nameTok b) = (a = b)"
  by (auto simp: nameTok_def dest: showNat_inj)

lemma valueTok_inj [simp]: "(valueTok a = valueTok b) = (a = b)"
  by (auto simp: valueTok_def dest: showNat_inj)

lemma obj_set_fresh: "k \<notin> fst ` set ob \<Longrightarrow> obj_set ob k v = ob @ [(k, v)]"
  by (simp add: obj_set_def)

lemma nameTok_fresh:
  "placeholdersInOrder e \<Longrightarrow> nindex e \<le> n \<Longrightarrow> nameTok n \<notin> fst ` set (names e)"
proof -
  assume a: "placeholdersInOrder e" "nindex e \<le> n"
  have "fst ` set (names e) = set (map fst (names e))" by simp
  also have "\<dots> = nameTok ` {0..<nindex e}"
    using a(1) by (simp add: placeholdersInOrder_def)
  finally show ?thesis using a(2) by auto
qed

lemma valueTok_fresh:
  "placeholdersInOrder e \<Longrightarrow> vindex e \<le> n \<Longrightarrow> valueTok n \<notin> fst ` set (vals e)"
proof -
  assume a: "placeholdersInOrder e" "vindex e \<le> n"
  have "fst ` set (vals e) = set (map fst (vals e))" by simp
  also have "\<dots> = valueTok ` {0..<vindex e}"
    using a(1) by (simp add: placeholdersInOrder_def)
  finally show ?thesis using a(2) by auto
qed

lemma bind_name_in_order:
  assumes "placeholdersInOrder e"
  shows "obj_set (names e) (nameTok (nindex e)) a = names e @ [(nameTok (nindex e), a)]"
  using nameTok_fresh [OF assms, of "nindex e"] by (simp add: obj_set_fresh)

lemma bind_value_in_order:
  assumes "placeholdersInOrder e"
  shows "obj_set (vals e) (valueTok (vindex e)) v = vals e @ [(valueTok (vindex e), v)]"
  using valueTok_fresh [OF assms, of "vindex e"] by (simp add: obj_set_fresh)

lemma bind_two_values_in_order:
  assumes "placeholdersInOrder e"
  shows "obj_set (obj_set (vals e) (valueTok (vindex e)) a) (valueTok (Suc (vindex e))) b
           = vals e @ [(valueTok (vindex e), a), (valueTok (Suc (vindex e)), b)]"
proof -
  have "valueTok (Suc (vindex e)) \<notin> fst ` set (vals e @ [(valueTok (vindex e), a)])"
    using valueTok_fresh [OF assms, of "Suc (vindex e)"] by simp
  then show ?thesis
    by (simp add: bind_value_in_order [OF assms] obj_set_fresh)
qed

text \<open>
  The constructor starts with the placeholder maps in order, and the field loop of a
  find keeps them so: every context in which a find calls \<^verbatim>\<open>addKeys\<close> has them in order.
\<close>

lemma placeholders_init: "placeholdersInOrder (initExpression m opn props ps ix fb)"
  by (simp add: placeholdersInOrder_def initExpression_def)

lemma addKeys_placeholders:
  assumes "placeholdersInOrder e" and "addKeys e f v = Inr e'"
  shows "placeholdersInOrder e'"
proof -
  note n = bind_name_in_order [OF assms(1)]
  note v1 = bind_value_in_order [OF assms(1)]
  note v2 = bind_two_values_in_order [OF assms(1), unfolded bind_value_in_order [OF assms(1)]]
  from assms(1) have inv: "map fst (names e) = map nameTok [0..<nindex e]"
    "map fst (vals e) = map valueTok [0..<vindex e]"
    by (simp_all add: placeholdersInOrder_def)
  from assms(2) show ?thesis
    unfolding addKeys_def Let_def
    by (auto simp: placeholdersInOrder_def n v1 v2 inv split: if_splits sum.splits prod.splits)
qed

lemma addFilter_placeholders:
  assumes "placeholdersInOrder e"
  shows "placeholdersInOrder (addFilter e a v)"
  using assms bind_name_in_order [OF assms, of a] bind_value_in_order [OF assms, of v]
  by (simp add: addFilter_def placeholdersInOrder_def)

lemma add_find_placeholders:
  assumes "placeholdersInOrder e" and "op e = Find" and "add e f v = Inr e'"
  shows "placeholdersInOrder e'"
proof -
  from assms(2,3) obtain e1 where e1: "addKeys e f v = Inr e1 \<or> e1 = addFilter e (attribute f) v \<or> e1 = e"
    and e': "e' = e1\<lparr>fieldValues := obj_set (fieldValues e1) (attribute f) v\<rparr>"
    by (auto simp: add_def Let_def split: if_splits sum.splits)
  from e1 have "placeholdersInOrder e1"
    using addKeys_placeholders [OF assms(1), of f v e1] addFilter_placeholders [OF assms(1)] assms(1)
    by auto
  then show ?thesis
    by (simp add: e' placeholdersInOrder_def)
qed

lemma parseLoop_find_placeholders:
  "placeholdersInOrder e \<Longrightarrow> op e = Find \<Longrightarrow> parseLoop e flds props = Inr (b, e') \<Longrightarrow>
   placeholdersInOrder e'"
proof (induction flds arbitrary: e)
  case Nil
  then show ?case by simp
next
  case (Cons p flds)
  obtain k f where p: "p = (k, f)" by (cases p)
  show ?case
  proof (cases "resolveField e f props")
    case Continue
    with Cons.prems p show ?thesis by (auto intro: Cons.IH)
  next
    case ReturnFallback
    with Cons.prems p show ?thesis by (auto simp: placeholdersInOrder_def)
  next
    case (AddValue v e1)
    note r = resolveField_cases [OF AddValue]
    from r Cons.prems(1) have i1: "placeholdersInOrder e1"
      by (simp add: placeholdersInOrder_def)
    from r Cons.prems(2) have o1: "op e1 = Find"
      by (simp add: sameSetting_def)
    from Cons.prems(3) p AddValue obtain e2 where a: "add e1 f v = Inr e2"
      and rest: "(fallback e2 \<and> e' = e2) \<or> parseLoop e2 flds props = Inr (b, e')"
      by (auto split: sum.splits if_splits)
    have i2: "placeholdersInOrder e2"
      by (rule add_find_placeholders [OF i1 o1 a])
    have o2: "op e2 = Find"
      using add_effect [OF a] o1 by (simp add: sameSetting_def)
    from rest show ?thesis
      using i2 o2 Cons.IH [of e2] by auto
  qed
qed

text \<open>
  C5. In a context whose placeholder maps are in order (as they are wherever a find calls
  \<^verbatim>\<open>addKeys\<close>): a value \<^verbatim>\<open>{begins: x}\<close> appends one \<^verbatim>\<open>begins_with\<close> fragment, adds exactly
  one entry to the name map, binding a new name placeholder to the field's attribute, and
  exactly one entry to the value map, binding a new value placeholder to \<^verbatim>\<open>x\<close>; a value
  \<^verbatim>\<open>{between: [a, b]}\<close> appends one \<^verbatim>\<open>between\<close> fragment, adds exactly one entry to the name
  map and exactly two entries to the value map, binding two new and different value
  placeholders to \<^verbatim>\<open>a\<close> and \<^verbatim>\<open>b\<close>. The fragment names the placeholders bound, and nothing
  else of the context changes.
\<close>

theorem addKeys_begins_between:
  assumes "placeholdersInOrder e"
  shows "addKeys e f (JObj [(''begins'', x)]) =
     Inr (e\<lparr>keys := keys e @ [''begins_with('' @ nameTok (nindex e) @ '', '' @ valueTok (vindex e) @ '')''],
            names := names e @ [(nameTok (nindex e), attribute f)],
            vals := vals e @ [(valueTok (vindex e), x)],
            nindex := Suc (nindex e),
            vindex := Suc (vindex e)\<rparr>)
   \<and> addKeys e f (JObj [(''between'', JArr [Some a, Some b])]) =
     Inr (e\<lparr>keys := keys e @ [''between('' @ nameTok (nindex e) @ '', '' @ valueTok (vindex e)
                               @ '', '' @ valueTok (Suc (vindex e)) @ '')''],
            names := names e @ [(nameTok (nindex e), attribute f)],
            vals := vals e @ [(valueTok (vindex e), a), (valueTok (Suc (vindex e)), b)],
            nindex := Suc (nindex e),
            vindex := Suc (Suc (vindex e))\<rparr>)
   \<and> nameTok (nindex e) \<notin> fst ` set (names e)
   \<and> valueTok (vindex e) \<notin> fst ` set (vals e)
   \<and> valueTok (Suc (vindex e)) \<notin> fst ` set (vals e)
   \<and> valueTok (vindex e) \<noteq> valueTok (Suc (vindex e))"
proof -
  have begins: "addKeys e f (JObj [(''begins'', x)]) =
     Inr (e\<lparr>keys := keys e @ [''begins_with('' @ nameTok (nindex e) @ '', '' @ valueTok (vindex e) @ '')''],
            names := names e @ [(nameTok (nindex e), attribute f)],
            vals := vals e @ [(valueTok (vindex e), x)],
            nindex := Suc (nindex e),
            vindex := Suc (vindex e)\<rparr>)"
    by (simp add: addKeys_def firstEntry_def Let_def
        bind_name_in_order [OF assms] bind_value_in_order [OF assms])
  have between: "addKeys e f (JObj [(''between'', JArr [Some a, Some b])]) =
     Inr (e\<lparr>keys := keys e @ [''between('' @ nameTok (nindex e) @ '', '' @ valueTok (vindex e)
                               @ '', '' @ valueTok (Suc (vindex e)) @ '')''],
            names := names e @ [(nameTok (nindex e), attribute f)],
            vals := vals e @ [(valueTok (vindex e), a), (valueTok (Suc (vindex e)), b)],
            nindex := Suc (nindex e),
            vindex := Suc (Suc (vindex e))\<rparr>)"
    by (simp add: addKeys_def firstEntry_def index_get_def arr_get_def Let_def
        bind_name_in_order [OF assms] bind_two_values_in_order [OF assms])
  show ?thesis
    using begins between nameTok_fresh [OF assms, of "nindex e"]
      valueTok_fresh [OF assms, of "vindex e"] valueTok_fresh [OF assms, of "Suc (vindex e)"]
    by simp
qed

text \<open>
  The theorem in a find on the sample table, after \<^verbatim>\<open>pk\<close> was parsed: the sort field gets
  \<^verbatim>\<open>#_1\<close>, and \<^verbatim>\<open>:_1\<close> for \<^verbatim>\<open>{begins: "x"}\<close>, \<^verbatim>\<open>:_1\<close> and \<^verbatim>\<open>:_2\<close> for
  \<^verbatim>\<open>{between: [1, 9]}\<close>.
\<close>

theorem addKeys_begins_between_witness:
  "placeholdersInOrder ex_find_after_pk
   \<and> keys ex_find_after_pk = [''#_0 = :_0'']
   \<and> names ex_find_after_pk = [(''#_0'', ''pk'')]
   \<and> vals ex_find_after_pk = [('':_0'', JStr ''a'')]
   \<and> map_sum id (\<lambda>e. (keys e, names e, vals e, nindex e, vindex e))
        (addKeys ex_find_after_pk ex_sk (JObj [(''begins'', JStr ''x'')]))
      = Inr ([''#_0 = :_0'', ''begins_with(#_1, :_1)''],
             [(''#_0'', ''pk''), (''#_1'', ''sk'')],
             [('':_0'', JStr ''a''), ('':_1'', JStr ''x'')], 2, 2)
   \<and> map_sum id (\<lambda>e. (keys e, names e, vals e, nindex e, vindex e))
        (addKeys ex_find_after_pk ex_sk (JObj [(''between'', JArr [Some (JNum 1), Some (JNum 9)])]))
      = Inr ([''#_0 = :_0'', ''between(#_1, :_1, :_2)''],
             [(''#_0'', ''pk''), (''#_1'', ''sk'')],
             [('':_0'', JStr ''a''), ('':_1'', JNum 1), ('':_2'', JNum 9)], 2, 3)"
proof -
  have inv: "placeholdersInOrder ex_find_after_pk"
    by code_simp
  have st: "keys ex_find_after_pk = [''#_0 = :_0'']" "names ex_find_after_pk = [(''#_0'', ''pk'')]"
    "vals ex_find_after_pk = [('':_0'', JStr ''a'')]"
    "nindex ex_find_after_pk = 1" "vindex ex_find_after_pk = 1"
    by code_simp+
  have toks: "nameTok (Suc 0) = ''#_1''" "valueTok (Suc 0) = '':_1''"
    "valueTok (Suc (Suc 0)) = '':_2''"
    by code_simp+
  have at: "attribute ex_sk = ''sk''"
    by (simp add: ex_sk_def)
  note t = addKeys_begins_between [OF inv, where f = ex_sk and x = "JStr ''x''"
      and a = "JNum 1" and b = "JNum 9"]
  from t have b1: "map_sum id (\<lambda>e. (keys e, names e, vals e, nindex e, vindex e))
        (addKeys ex_find_after_pk ex_sk (JObj [(''begins'', JStr ''x'')]))
      = Inr ([''#_0 = :_0'', ''begins_with(#_1, :_1)''],
             [(''#_0'', ''pk''), (''#_1'', ''sk'')],
             [('':_0'', JStr ''a''), ('':_1'', JStr ''x'')], 2, 2)"
    by (simp add: st toks at)
  from t have b2: "map_sum id (\<lambda>e. (keys e, names e, vals e, nindex e, vindex e))
        (addKeys ex_find_after_pk ex_sk (JObj [(''between'', JArr [Some (JNum 1), Some (JNum 9)])]))
      = Inr ([''#_0 = :_0'', ''between(#_1, :_1, :_2)''],
             [(''#_0'', ''pk''), (''#_1'', ''sk'')],
             [('':_0'', JStr ''a''), ('':_1'', JNum 1), ('':_2'', JNum 9)], 2, 3)"
    by (simp add: st toks at)
  from inv st b1 b2 show ?thesis by simp
qed

subsection \<open>What the assemblers leave unchanged\<close>











lemma parseLoop_append:
  "parseLoop e (pre @ rest) props =
     (case parseLoop e pre props of
        Inl err \<Rightarrow> Inl err
      | Inr (True, e1) \<Rightarrow> Inr (True, e1)
      | Inr (False, e1) \<Rightarrow> parseLoop e1 rest props)"
proof (induction pre arbitrary: e)
  case Nil
  show ?case by simp
next
  case (Cons p pre)
  obtain k f where p: "p = (k, f)" by (cases p)
  show ?case
    unfolding p
    by (simp add: Cons.IH split: resolved.splits sum.splits)
qed

subsection \<open>The hash key check\<close>

lemma initExpression_sel [simp]:
  "fallback (initExpression m opn props ps ix fb) = fb"
  "op (initExpression m opn props ps ix fb) = opn"
  "index (initExpression m opn props ps ix fb) = ix"
  "model (initExpression m opn props ps ix fb) = m"
  by (simp_all add: initExpression_def)







subsection \<open>Fallback\<close>

text \<open>
  C8. A context whose fallback flag is set prepares to \<^verbatim>\<open>null\<close>. When \<^verbatim>\<open>selectIndex\<close>
  sets the flag, the constructor returns the context as it set it up: no field is
  parsed. When the loop of \<^verbatim>\<open>parseFields\<close> reaches, after the fields \<open>pre\<close>, the sort
  field \<open>f\<close> of a high-level call with no value (and \<open>f\<close> is not an identifier field
  of a put), the constructor returns the context of that moment with the flag set: the
  fields \<open>rest\<close> after \<open>f\<close>, the hash check, the conditions and the filters have no
  effect.
\<close>

theorem fallback_stops_translation:
  "(fallback e \<longrightarrow> prepare e = Inr None)
   \<and> (selectIndex (m_indexes m) opn ps = (Some ix, True) \<longrightarrow>
        newExpression m opn props ps = Inr (initExpression m opn props ps ix True))
   \<and> (selectIndex (m_indexes m) opn ps = (Some ix, False)
        \<and> m_fields m = pre @ (k, f) # rest
        \<and> parseLoop (initExpression m opn props ps ix False) pre props = Inr (False, e1)
        \<and> template e1 f props [tcontext (table e1)] \<in> {JUndefined, JNull, JStr []}
        \<and> \<not> (uuid f \<and> op e1 = Put)
        \<and> Some (name f) = sort_key (index e1) \<and> p_high (params e1) \<longrightarrow>
        newExpression m opn props ps = Inr (e1\<lparr>fallback := True\<rparr>))"
proof (intro conjI impI)
  assume "fallback e"
  then show "prepare e = Inr None" by (simp add: prepare_def)
next
  assume "selectIndex (m_indexes m) opn ps = (Some ix, True)"
  then show "newExpression m opn props ps = Inr (initExpression m opn props ps ix True)"
    by (simp add: newExpression_def Let_def)
next
  assume a: "selectIndex (m_indexes m) opn ps = (Some ix, False)
        \<and> m_fields m = pre @ (k, f) # rest
        \<and> parseLoop (initExpression m opn props ps ix False) pre props = Inr (False, e1)
        \<and> template e1 f props [tcontext (table e1)] \<in> {JUndefined, JNull, JStr []}
        \<and> \<not> (uuid f \<and> op e1 = Put)
        \<and> Some (name f) = sort_key (index e1) \<and> p_high (params e1)"
  then have rf: "resolveField e1 f props = ReturnFallback"
    by (auto simp: resolveField_def Let_def)
  have "parseLoop (initExpression m opn props ps ix False) (pre @ (k, f) # rest) props
          = Inr (True, e1\<lparr>fallback := True\<rparr>)"
    using a rf by (simp add: parseLoop_append)
  then have "parseFields (initExpression m opn props ps ix False) (m_fields m) props
          = Inr (e1\<lparr>fallback := True\<rparr>)"
    using a by (simp add: parseFields_def Let_def)
  then show "newExpression m opn props ps = Inr (e1\<lparr>fallback := True\<rparr>)"
    using a by (simp add: newExpression_def Let_def)
qed

text \<open>
  The theorem on the sample table: a put on the index \<^verbatim>\<open>gs1\<close> (the flag is set by
  \<^verbatim>\<open>selectIndex\<close>), and a high-level get with \<^verbatim>\<open>pk\<close> alone (the flag is set at the sort
  field, after \<^verbatim>\<open>pk\<close> was parsed and before \<^verbatim>\<open>status\<close>).
\<close>

theorem fallback_stops_translation_witness:
  "prepare (initExpression ex_model Put [] (ex_params\<lparr>p_index := Some ''gs1''\<rparr>) ex_gs1 True) = Inr None
   \<and> newExpression ex_model Put [] (ex_params\<lparr>p_index := Some ''gs1''\<rparr>)
        = Inr (initExpression ex_model Put [] (ex_params\<lparr>p_index := Some ''gs1''\<rparr>) ex_gs1 True)
   \<and> newExpression ex_model Get [(''pk'', JStr ''a'')] (ex_params\<lparr>p_high := True\<rparr>)
        = Inr (ex_after_pk\<lparr>fallback := True\<rparr>)
   \<and> prepare (ex_after_pk\<lparr>fallback := True\<rparr>) = Inr None
   \<and> fieldValues ex_after_pk = [(''pk'', JStr ''a'')]"
proof -
  let ?psI = "ex_params\<lparr>p_index := Some ''gs1''\<rparr>"
  let ?psH = "ex_params\<lparr>p_high := True\<rparr>"
  let ?props = "[(''pk'', JStr ''a'')]"
  let ?init = "initExpression ex_model Get ?props ?psH ex_primary False"
  have selI: "selectIndex (m_indexes ex_model) Put ?psI = (Some ex_gs1, True)"
    by code_simp
  have selH: "selectIndex (m_indexes ex_model) Get ?psH = (Some ex_primary, False)"
    by code_simp
  have flds: "m_fields ex_model = [(''pk'', ex_pk)] @ (''sk'', ex_sk) # [(''status'', ex_status)]"
    by (simp add: ex_model_def)
  have "\<not> isl (parseLoop ?init [(''pk'', ex_pk)] ?props)"
    and "\<not> fst (projr (parseLoop ?init [(''pk'', ex_pk)] ?props))"
    by code_simp+
  then have loop: "parseLoop ?init [(''pk'', ex_pk)] ?props = Inr (False, ex_after_pk)"
    unfolding ex_after_pk_def
    by (cases "parseLoop ?init [(''pk'', ex_pk)] ?props") auto
  have tmpl: "template ex_after_pk ex_sk ?props [tcontext (table ex_after_pk)] = JUndefined"
    by code_simp
  have rest: "\<not> (uuid ex_sk \<and> op ex_after_pk = Put)"
    "Some (name ex_sk) = sort_key (index ex_after_pk)" "p_high (params ex_after_pk)"
    by code_simp+
  have fv: "fieldValues ex_after_pk = [(''pk'', JStr ''a'')]"
    by code_simp
  note thmI = fallback_stops_translation [where m = ex_model and opn = Put and ps = ?psI
      and ix = ex_gs1 and props = "[]"
      and e = "initExpression ex_model Put [] ?psI ex_gs1 True"]
  note thmH = fallback_stops_translation [where m = ex_model and opn = Get and ps = ?psH
      and ix = ex_primary and props = ?props and pre = "[(''pk'', ex_pk)]" and k = "''sk''"
      and f = ex_sk and rest = "[(''status'', ex_status)]" and ?e1.0 = ex_after_pk
      and e = "ex_after_pk\<lparr>fallback := True\<rparr>"]
  have a: "prepare (initExpression ex_model Put [] ?psI ex_gs1 True) = Inr None"
    using thmI by simp
  have b: "newExpression ex_model Put [] ?psI = Inr (initExpression ex_model Put [] ?psI ex_gs1 True)"
    using thmI selI by blast
  have c: "newExpression ex_model Get ?props ?psH = Inr (ex_after_pk\<lparr>fallback := True\<rparr>)"
    using thmH selH flds loop tmpl rest by simp
  have d: "prepare (ex_after_pk\<lparr>fallback := True\<rparr>) = Inr None"
    using thmH by simp
  from a b c d fv show ?thesis by blast
qed

subsection \<open>The placeholder maps in the request\<close>

lemma eav_argsTable: "((''ExpressionAttributeValues'', v) \<in> set (argsTable e args)) = ((''ExpressionAttributeValues'', v) \<in> set args)"
  by (simp add: argsTable_def obj_set_other)
lemma eav_argsMetrics: "((''ExpressionAttributeValues'', v) \<in> set (argsMetrics e args)) = ((''ExpressionAttributeValues'', v) \<in> set args)"
  by (simp add: argsMetrics_def obj_set_other)
lemma eav_argsOp: "((''ExpressionAttributeValues'', v) \<in> set (argsOp e args)) = ((''ExpressionAttributeValues'', v) \<in> set args)"
  by (simp add: argsOp_def obj_set_other Let_def)
lemma eav_argsKey: "((''ExpressionAttributeValues'', v) \<in> set (argsKey e args)) = ((''ExpressionAttributeValues'', v) \<in> set args)"
  by (simp add: argsKey_def obj_set_other)
lemma eav_argsRead: "((''ExpressionAttributeValues'', v) \<in> set (argsRead e args)) = ((''ExpressionAttributeValues'', v) \<in> set args)"
  by (simp add: argsRead_def obj_set_other)
lemma eav_argsPaging: "((''ExpressionAttributeValues'', v) \<in> set (argsPaging e args)) = ((''ExpressionAttributeValues'', v) \<in> set args)"
  by (simp add: argsPaging_def obj_set_other Let_def)
lemma eav_argsLiteral: "((''ExpressionAttributeValues'', v) \<in> set (argsLiteral e)) = (v = (if names e \<noteq> [] then JObj (vals e) else JUndefined))"
  by (auto simp: argsLiteral_def)

lemmas eav_args = eav_argsTable eav_argsMetrics eav_argsOp eav_argsKey eav_argsRead eav_argsPaging eav_argsLiteral

text \<open>
  C10. In a request that \<^verbatim>\<open>prepare\<close> returns, \<^verbatim>\<open>ExpressionAttributeValues\<close> is present
  exactly when the name-placeholder map is not empty, and it is then the
  value-placeholder map; the value-placeholder map itself is not consulted.
\<close>

theorem values_gated_on_names:
  assumes "prepare e = Inr (Some req)"
  shows "((\<exists>v. (''ExpressionAttributeValues'', v) \<in> set req) \<longleftrightarrow> names e \<noteq> [])
       \<and> (\<forall>v. (''ExpressionAttributeValues'', v) \<in> set req \<longrightarrow> v = JObj (vals e))"
proof -
  from assms have req: "req = filter (\<lambda>(k, v). \<not> nullish v)
      (argsPaging e (argsRead e (argsKey e (argsOp e (argsMetrics e (argsTable e (argsLiteral e)))))))"
    by (simp add: prepare_def Let_def split: if_splits)
  have mem: "((''ExpressionAttributeValues'', v) \<in> set req) = (names e \<noteq> [] \<and> v = JObj (vals e))" for v
    unfolding req by (auto simp: eav_args)
  show ?thesis
    by (simp add: mem)
qed

text \<open>
  The theorem at a delete whose where clause is \<^verbatim>\<open>x = {1}\<close>: the clause binds the value
  placeholder \<^verbatim>\<open>:_0\<close> and no name placeholder, the condition expression refers to
  \<^verbatim>\<open>:_0\<close>, and the request has no \<^verbatim>\<open>ExpressionAttributeValues\<close>.
\<close>

theorem values_gated_on_names_witness:
  "prepare ex_delete_where =
     Inr (Some [(''ConditionExpression'', JStr ''x = :_0''), (''TableName'', JStr ''T''),
                (''Key'', JObj [(''pk'', JStr ''a''), (''sk'', JStr ''b'')])])
   \<and> names ex_delete_where = []
   \<and> vals ex_delete_where = [('':_0'', JNum 1)]
   \<and> (\<nexists>v. (''ExpressionAttributeValues'', v)
          \<in> set [(''ConditionExpression'', JStr ''x = :_0''), (''TableName'', JStr ''T''),
                  (''Key'', JObj [(''pk'', JStr ''a''), (''sk'', JStr ''b'')])])"
proof -
  have p: "prepare ex_delete_where =
     Inr (Some [(''ConditionExpression'', JStr ''x = :_0''), (''TableName'', JStr ''T''),
                (''Key'', JObj [(''pk'', JStr ''a''), (''sk'', JStr ''b'')])])"
    by code_simp
  have n: "names ex_delete_where = []"
    by code_simp
  have v: "vals ex_delete_where = [('':_0'', JNum 1)]"
    by code_simp
  from values_gated_on_names [OF p] n
  have "\<nexists>v. (''ExpressionAttributeValues'', v)
          \<in> set [(''ConditionExpression'', JStr ''x = :_0''), (''TableName'', JStr ''T''),
                  (''Key'', JObj [(''pk'', JStr ''a''), (''sk'', JStr ''b'')])]"
    by blast
  with p n v show ?thesis by blast
qed

text \<open>
  C9. With \<^verbatim>\<open>metrics\<close> set, the request of a put on the sample table holds
  \<^verbatim>\<open>ReturnConsumedCapacity\<close> and no \<^verbatim>\<open>ReturnItemCollectionMetrics\<close>.
\<close>

theorem metrics_without_collection_flag:
  "translate ex_model Put [(''pk'', JStr ''a'')] (ex_params\<lparr>p_metrics := True\<rparr>) =
   Inr (Some
       [(''TableName'', JStr ''T''),
        (''ReturnConsumedCapacity'', JStr ''TOTAL''),
        (''Item'', JObj [(''pk'', JStr ''a'')]),
        (''ReturnValues'', JStr ''NONE'')])"
  by code_simp

text \<open>
  C2. A get on a table whose hash field is not flagged as indexed routes no field into
  the key map; \<^verbatim>\<open>prepare\<close> returns a request with an empty \<^verbatim>\<open>Key\<close>, not \<^verbatim>\<open>null\<close>.
\<close>

theorem get_without_key_gives_request:
  "translate (ex_model\<lparr>m_fields := [(''pk'', ex_pk\<lparr>isIndexed := False\<rparr>)]\<rparr>) Get
     [(''pk'', JStr ''a'')] ex_params =
   Inr (Some [(''TableName'', JStr ''T''), (''Key'', JObj []), (''ConsistentRead'', JBool False)])"
  by code_simp

subsection \<open>Unsupported key directives\<close>

text \<open>
  C4. A find whose sort value is \<^verbatim>\<open>{le: 5}\<close> raises nothing: the request has the hash
  fragment alone as its key condition, and a name placeholder \<^verbatim>\<open>#_1\<close> that no
  expression refers to.
\<close>

theorem unsupported_directive_ignored:
  "translate ex_model Find [(''pk'', JStr ''a''), (''sk'', JObj [(''le'', JNum 5)])] ex_params =
   Inr (Some
       [(''ExpressionAttributeNames'', JObj [(''#_0'', JStr ''pk''), (''#_1'', JStr ''sk'')]),
        (''ExpressionAttributeValues'', JObj [('':_0'', JStr ''a'')]),
        (''KeyConditionExpression'', JStr ''#_0 = :_0''),
        (''TableName'', JStr ''T''), (''ConsistentRead'', JBool False),
        (''ScanIndexForward'', JBool True)])"
  by code_simp

subsection \<open>The sanitizer and nested nulls\<close>

text \<open>
  C6. Whatever \<^verbatim>\<open>field.nulls\<close> is, \<^verbatim>\<open>removeEmptyStrings\<close> keeps an entry or an element
  whose value is \<^verbatim>\<open>null\<close>, at the top of the structure and below it: \<^verbatim>\<open>typeof null\<close> is
  \<^verbatim>\<open>'object'\<close>, so the first branch of the loop body takes it. An empty string beside it
  is dropped.
\<close>

theorem nested_null_kept:
  "removeEmptyStrings f (JObj [(k, JNull)]) = JObj [(k, JNull)]
   \<and> removeEmptyStrings f (JArr [Some JNull]) = JArr [Some JNull]
   \<and> removeEmptyStrings f (JObj [(k, JObj [(k', JNull), (k'', JStr [])])]) = JObj [(k, JObj [(k', JNull)])]"
  by (simp add: obj_set_def arr_set_def)

subsection \<open>The remove list\<close>

text \<open>
  C7. An update of the sample table with \<^verbatim>\<open>remove: ['status']\<close> raises a
  \<^verbatim>\<open>ReferenceError\<close> in the constructor: no fragment and no update expression result.
\<close>

theorem remove_list_raises:
  "translate ex_model Update [(''pk'', JStr ''a''), (''sk'', JStr ''b'')]
     (ex_params\<lparr>p_remove := JArr [Some (JStr ''status'')]\<rparr>) =
   Inl (ReferenceError ''key is not defined'')"
  by code_simp

subsection \<open>The order of the contexts\<close>










end
